theory Spec2Isabelle
  imports Main
begin

section \<open>JavaScript values and library functions used by the sources\<close>

text \<open>
  Strings are character lists; a character stands for the UTF-16 code unit of the same
  number, so the strings modelled are those of code units below 256. JavaScript numbers
  are modelled as unbounded integers (exact for every value below \<open>2^53\<close>); \<open>NaN\<close>,
  \<open>null\<close> and \<open>undefined\<close> are \<open>None\<close> of an option type.
\<close>

definition isDigit :: "char \<Rightarrow> bool" where
  "isDigit c = (c \<in> set ''0123456789'')"

definition digitsToNat :: "string \<Rightarrow> nat" where
  "digitsToNat ds = foldl (\<lambda>n c. 10 * n + (of_char c - 48)) 0 ds"

text \<open>Decimal rendering of a non-negative integer, as a template literal prints it.\<close>

definition digitChar :: "nat \<Rightarrow> char" where
  "digitChar d = ''0123456789'' ! d"

fun showNat :: "nat \<Rightarrow> string" where
  "showNat n =
     (if n < 10 then [digitChar n]
      else showNat (n div 10) @ [digitChar (n mod 10)])"

declare showNat.simps [simp del]

text \<open>\<open>String.prototype.endsWith\<close> and a regular expression anchored by \<open>$\<close>.\<close>

definition endsWith :: "string \<Rightarrow> string \<Rightarrow> bool" where
  "endsWith s suffix =
     (length suffix \<le> length s \<and> drop (length s - length suffix) s = suffix)"

text \<open>ASCII case folding, for regular expressions with the \<open>i\<close> flag.\<close>

definition toLowerChar :: "char \<Rightarrow> char" where
  "toLowerChar c =
     (if 65 \<le> (of_char c :: nat) \<and> (of_char c :: nat) \<le> 90
      then char_of ((of_char c :: nat) + 32) else c)"

definition toLowerCase :: "string \<Rightarrow> string" where
  "toLowerCase s = map toLowerChar s"

subsection \<open>The semver package\<close>

text \<open>
  \<open>semver.coerce\<close>, \<open>semver.lt\<close>, \<open>semver.gte\<close> and \<open>semver.satisfies\<close> belong to the
  npm package \<open>semver\<close>, a dependency outside this repository. They are modelled by the
  package's documented behaviour. A coerced version has no prerelease or build part, so
  it is a triple of numbers.

  \<open>coerce\<close> searches the string for the leftmost match of
  \<^verbatim>\<open>(^|[^\d])(\d{1,16})(?:\.(\d{1,16}))?(?:\.(\d{1,16}))?(?:$|[^\d])\<close>,
  fills a missing minor or patch with \<open>0\<close> and parses the result strictly: a component with
  a leading zero, or above \<open>Number.MAX_SAFE_INTEGER\<close>, makes the result \<open>null\<close>.
\<close>

type_synonym semver = "nat \<times> nat \<times> nat"

definition MAX_SAFE_INTEGER :: nat where
  "MAX_SAFE_INTEGER = 9007199254740991"

text \<open>
  The match of the three numeric groups at the start of a digit run: a run of more than
  16 digits cannot be a component, because the expression needs a non-digit (or the end)
  after the last component.
\<close>

definition coerceAt :: "string \<Rightarrow> (string \<times> string \<times> string) option" where
  "coerceAt s =
     (let major = takeWhile isDigit s; rest = dropWhile isDigit s in
      if major = [] \<or> 16 < length major then None
      else (case rest of
              c # r1 \<Rightarrow>
                (let minor = takeWhile isDigit r1; rest1 = dropWhile isDigit r1 in
                 if c \<noteq> CHR ''.'' \<or> minor = [] \<or> 16 < length minor
                 then Some (major, ''0'', ''0'')
                 else (case rest1 of
                         d # r2 \<Rightarrow>
                           (let patch = takeWhile isDigit r2 in
                            if d \<noteq> CHR ''.'' \<or> patch = [] \<or> 16 < length patch
                            then Some (major, minor, ''0'')
                            else Some (major, minor, patch))
                       | [] \<Rightarrow> Some (major, minor, ''0'')))
            | [] \<Rightarrow> Some (major, ''0'', ''0'')))"

text \<open>
  The leftmost match: \<open>boundary\<close> says that the previous character is not a digit or
  that the position is the start of the string.
\<close>

fun coerceScan :: "bool \<Rightarrow> string \<Rightarrow> (string \<times> string \<times> string) option" where
  "coerceScan boundary [] = None"
| "coerceScan boundary (c # cs) =
     (if isDigit c then
        (if boundary then
           (case coerceAt (c # cs) of
              Some m \<Rightarrow> Some m
            | None \<Rightarrow> coerceScan False cs)
         else coerceScan False cs)
      else coerceScan True cs)"

definition numericIdentifier :: "string \<Rightarrow> nat option" where
  "numericIdentifier ds =
     (if ds \<noteq> ''0'' \<and> take 1 ds = ''0'' then None
      else if MAX_SAFE_INTEGER < digitsToNat ds then None
      else Some (digitsToNat ds))"

definition semver_coerce :: "string \<Rightarrow> semver option" where
  "semver_coerce version =
     (case coerceScan True version of
        None \<Rightarrow> None
      | Some (major, minor, patch) \<Rightarrow>
          (case (numericIdentifier major, numericIdentifier minor, numericIdentifier patch) of
             (Some a, Some b, Some c) \<Rightarrow> Some (a, b, c)
           | _ \<Rightarrow> None))"

definition semver_lt :: "semver \<Rightarrow> semver \<Rightarrow> bool" where
  "semver_lt a b =
     (case a of (a1, a2, a3) \<Rightarrow> case b of (b1, b2, b3) \<Rightarrow>
        a1 < b1 \<or> (a1 = b1 \<and> (a2 < b2 \<or> (a2 = b2 \<and> a3 < b3))))"

definition semver_gte :: "semver \<Rightarrow> semver \<Rightarrow> bool" where
  "semver_gte a b = (\<not> semver_lt a b)"

text \<open>
  The two shapes of range the sources pass to \<open>semver.satisfies\<close>: \<open>>=b\<close>, and \<open>^b\<close> with
  a major version above zero (from \<open>b\<close> up to the next major version).
\<close>

datatype semver_range = GtEq semver | Caret semver

fun semver_satisfies :: "semver \<Rightarrow> semver_range \<Rightarrow> bool" where
  "semver_satisfies v (GtEq b) = semver_gte v b"
| "semver_satisfies v (Caret b) = (semver_gte v b \<and> semver_lt v (Suc (fst b), 0, 0))"

section \<open>Errors\<close>

datatype MinioServerStates = new | starting | running | stopped

datatype LockFileStatus = available | availableInstance | lockedSelf | lockedDifferent

text \<open>
  The error classes of \<open>errors.js\<close> that the modelled functions throw, with the
  constructor arguments they carry; \<open>Error\<close> and \<open>TypeError\<close> are the plain JavaScript
  errors with their message, \<open>SystemError\<close> an error of the runtime that carries a \<open>code\<close>.
\<close>

datatype error =
    StateError "MinioServerStates list" MinioServerStates
  | UnknownPlatformError string
  | UnknownVersionError string
  | KnownVersionIncompatibilityError string string string "string option"
  | UnknownLockfileStatusError LockFileStatus
  | UnableToUnlockLockfileError bool string
  | DownloadError string string
  | GenericMMSError string
  | Error string
  | TypeError string
  | SystemError string

section \<open>MinioBinaryDownloadUrl\<close>

text \<open>\<open>testVersionIsLatest\<close>: the expression \<^verbatim>\<open>/^v\d+\.\d+-latest$/\<close>.\<close>

definition testVersionIsLatest :: "string \<Rightarrow> bool" where
  "testVersionIsLatest version =
     (case version of
        [] \<Rightarrow> False
      | c # r \<Rightarrow>
          (let d1 = takeWhile isDigit r; r1 = dropWhile isDigit r in
           c = CHR ''v'' \<and> d1 \<noteq> [] \<and>
           (case r1 of
              [] \<Rightarrow> False
            | p # r2 \<Rightarrow>
                p = CHR ''.'' \<and> takeWhile isDigit r2 \<noteq> [] \<and>
                dropWhile isDigit r2 = ''-latest'')))"

text \<open>
  \<open>translatePlatform(platform)\<close>, reading \<open>this.version\<close>. The \<open>sunos\<close> case also prints
  a deprecation warning.
\<close>

definition translatePlatform :: "string \<Rightarrow> string \<Rightarrow> error + string" where
  "translatePlatform version platform =
     (if platform = ''darwin'' then Inr ''darwin''
      else if platform = ''win32'' then
        (case semver_coerce version of
           None \<Rightarrow> Inr ''windows''
         | Some v \<Rightarrow> Inr (if semver_gte v (4, 3, 0) then ''windows'' else ''win32''))
      else if platform = ''linux'' \<or> platform = ''elementary OS'' then Inr ''linux''
      else if platform = ''sunos'' then Inr ''sunos5''
      else Inl (UnknownPlatformError platform))"

text \<open>
  \<open>getRhelVersionString(os)\<close>, reading \<open>this.arch\<close>, \<open>this.version\<close> and \<open>os.release\<close>.
  The warnings and log lines have no effect on the result.
\<close>

definition getRhelVersionString :: "string \<Rightarrow> string \<Rightarrow> string \<Rightarrow> error + string" where
  "getRhelVersionString arch version release =
     (case semver_coerce version of
        None \<Rightarrow> Inl (UnknownVersionError version)
      | Some coercedVersion \<Rightarrow>
          (case semver_coerce release of
             Some releaseAsSemver \<Rightarrow>
               (if arch = ''aarch64'' then
                  (if semver_lt releaseAsSemver (8, 2, 0) then
                     Inl (KnownVersionIncompatibilityError (''Rhel '' @ release) version ''>=4.4.2''
                            (Some ''ARM64(aarch64) support for rhel is only for rhel82 or higher''))
                   else if semver_lt coercedVersion (4, 4, 2) \<and> \<not> testVersionIsLatest version then
                     Inl (KnownVersionIncompatibilityError (''Rhel '' @ release) version ''>=4.4.2'' None)
                   else Inr ''rhel82'')
                else if semver_satisfies releaseAsSemver (GtEq (8, 0, 0)) then Inr ''rhel80''
                else if semver_satisfies releaseAsSemver (Caret (7, 0, 0)) then Inr ''rhel70''
                else if semver_satisfies releaseAsSemver (Caret (6, 0, 0)) then Inr ''rhel62''
                else if semver_satisfies releaseAsSemver (Caret (5, 0, 0)) then Inr ''rhel55''
                else Inr ''rhel70'')
           | None \<Rightarrow> Inr ''rhel70''))"

section \<open>MinioInstance\<close>





section \<open>utils\<close>

text \<open>
  \<open>a || b\<close> on an optional string: \<open>undefined\<close>, \<open>null\<close> and the empty string are
  falsy.
\<close>

definition orElse :: "string option \<Rightarrow> string \<Rightarrow> string" where
  "orElse a b = (case a of None \<Rightarrow> b | Some s \<Rightarrow> if s = [] then b else s)"

definition generateDbName :: "string option \<Rightarrow> string" where
  "generateDbName dbName = orElse dbName []"

text \<open>\<open>Array.prototype.join\<close>.\<close>

fun joinWith :: "string \<Rightarrow> string list \<Rightarrow> string" where
  "joinWith sep [] = []"
| "joinWith sep [x] = x"
| "joinWith sep (x # y # ys) = x @ sep @ joinWith sep (y # ys)"

definition uriTemplate :: "string \<Rightarrow> nat option \<Rightarrow> string \<Rightarrow> string list option \<Rightarrow> string" where
  "uriTemplate host prt dbName query =
     (let hosts = (case prt of Some p \<Rightarrow> host @ '':'' @ showNat p | None \<Rightarrow> host)
      in ''mongodb://'' @ hosts @ ''/'' @ dbName @
         (case query of Some q \<Rightarrow> ''?'' @ joinWith ''&'' q | None \<Rightarrow> []))"

section \<open>MinioServer\<close>

text \<open>
  The fields of a \<open>MinioInstance\<close> that the server reads: the two child processes, by
  pid, \<open>None\<close> when the field is \<open>undefined\<close>.
\<close>

record MinioInstance =
  minioProcess :: "nat option"
  killerProcess :: "nat option"

text \<open>\<open>_instanceInfo\<close>: the start-up data and the instance (field \<open>instance\<close>).\<close>

record InstanceInfo =
  port :: nat
  dataPath :: string
  ip :: string
  tmpDir :: "string option"
  inst :: MinioInstance

text \<open>
  A \<open>MinioServer\<close>: \<open>_state\<close>, \<open>_instanceInfo\<close>, and the \<open>stateChange\<close> events emitted
  so far, oldest first.
\<close>

record MinioServer =
  state :: MinioServerStates
  instanceInfo :: "InstanceInfo option"
  emitted :: "MinioServerStates list"

definition stateChange :: "MinioServerStates \<Rightarrow> MinioServer \<Rightarrow> MinioServer" where
  "stateChange newState this = this\<lparr>state := newState, emitted := emitted this @ [newState]\<rparr>"

text \<open>
  \<open>MinioInstance.stop\<close>. \<open>killProcess\<close> (utils) waits for a child process to exit; it
  is a parameter here, giving for a pid the error it rejects with, if any.
\<close>

definition MinioInstance_stop ::
  "(nat \<Rightarrow> error option) \<Rightarrow> MinioInstance \<Rightarrow> (error + bool) \<times> MinioInstance" where
  "MinioInstance_stop killProcess this =
     (if minioProcess this = None \<and> killerProcess this = None then (Inr False, this)
      else
        (case (case minioProcess this of None \<Rightarrow> None | Some p \<Rightarrow> killProcess p) of
           Some e \<Rightarrow> (Inl e, this)
         | None \<Rightarrow>
             (let this1 = this\<lparr>minioProcess := None\<rparr> in
              case (case killerProcess this1 of None \<Rightarrow> None | Some k \<Rightarrow> killProcess k) of
                Some e \<Rightarrow> (Inl e, this1)
              | None \<Rightarrow> (Inr True, this1\<lparr>killerProcess := None\<rparr>))))"

text \<open>
  \<open>MinioServer.stop(cleanupOptions)\<close> with an options object whose \<open>doCleanup\<close> is the
  argument. \<open>cleanup\<close> removes directories; it is a parameter, giving the error it throws,
  if any, and the server it leaves.
\<close>

definition stop ::
  "(nat \<Rightarrow> error option) \<Rightarrow> (MinioServer \<Rightarrow> error option \<times> MinioServer) \<Rightarrow> bool \<Rightarrow>
   MinioServer \<Rightarrow> (error + bool) \<times> MinioServer" where
  "stop killProcess cleanup doCleanup this =
     (case instanceInfo this of
        None \<Rightarrow> (Inr False, this)
      | Some info \<Rightarrow>
          (case MinioInstance_stop killProcess (inst info) of
             (Inl e, i) \<Rightarrow> (Inl e, this\<lparr>instanceInfo := Some (info\<lparr>inst := i\<rparr>)\<rparr>)
           | (Inr _, i) \<Rightarrow>
               (let this1 = stateChange stopped (this\<lparr>instanceInfo := Some (info\<lparr>inst := i\<rparr>)\<rparr>) in
                if doCleanup then
                  (case cleanup this1 of
                     (Some e, this2) \<Rightarrow> (Inl e, this2)
                   | (None, this2) \<Rightarrow> (Inr True, this2))
                else (Inr True, this1))))"

text \<open>The condition of the assertion in \<open>start\<close>, negated: the process is defined.\<close>

definition minioProcessDefined :: "MinioServer \<Rightarrow> bool" where
  "minioProcessDefined this =
     (case instanceInfo this of None \<Rightarrow> False | Some info \<Rightarrow> minioProcess (inst info) \<noteq> None)"

text \<open>
  \<open>MinioServer.start(forceSamePort)\<close>. The start pipeline \<open>_startUpInstance\<close> is a
  parameter: from \<open>forceSamePort\<close> and \<open>_instanceInfo\<close> it gives the error it rejects
  with, if any, and the \<open>_instanceInfo\<close> it leaves; it does not touch \<open>_state\<close>. The
  result is the error thrown, if any, and the server afterwards. The hint appended to the
  message of a spawn error on macOS is not modelled.
\<close>

definition start ::
  "(bool \<Rightarrow> InstanceInfo option \<Rightarrow> error option \<times> InstanceInfo option) \<Rightarrow>
   (nat \<Rightarrow> error option) \<Rightarrow> (MinioServer \<Rightarrow> error option \<times> MinioServer) \<Rightarrow> bool \<Rightarrow>
   MinioServer \<Rightarrow> error option \<times> MinioServer" where
  \<open>start startUpInstance killProcess cleanup forceSamePort this =
     (case (case state this of
              new \<Rightarrow> None
            | stopped \<Rightarrow> None
            | running \<Rightarrow> None
            | starting \<Rightarrow> Some (StateError [new, stopped] (state this))) of
        Some e \<Rightarrow> (Some e, this)
      | None \<Rightarrow>
          (if minioProcessDefined this then
             (Some (Error ''Cannot start because "instance.minioProcess" is already defined!''), this)
           else
             (let this1 = stateChange starting this in
              case startUpInstance forceSamePort (instanceInfo this1) of
                (None, info) \<Rightarrow> (None, stateChange running (this1\<lparr>instanceInfo := info\<rparr>))
              | (Some err, info) \<Rightarrow>
                  (case stop killProcess cleanup False (this1\<lparr>instanceInfo := info\<rparr>) of
                     (Inl e, this2) \<Rightarrow> (Some e, this2)
                   | (Inr _, this2) \<Rightarrow> (Some err, stateChange stopped this2)))))\<close>

text \<open>\<open>MinioServer.getUri(otherDb, otherIp)\<close>.\<close>

definition getUri :: "MinioServer \<Rightarrow> string option \<Rightarrow> string option \<Rightarrow> error + string" where
  \<open>getUri this otherDb otherIp =
     (case (case state this of
              running \<Rightarrow> None
            | starting \<Rightarrow> None
            | _ \<Rightarrow> Some (StateError [running, starting] (state this))) of
        Some e \<Rightarrow> Inl e
      | None \<Rightarrow>
          (case instanceInfo this of
             None \<Rightarrow> Inl (Error ''"instanceInfo" is undefined'')
           | Some info \<Rightarrow>
               Inr (uriTemplate (orElse otherIp ''127.0.0.1'') (Some (port info))
                      (generateDbName otherDb) None)))\<close>

section \<open>The runtime\<close>

text \<open>
  The effects on the file system and the network, in the order the code issues them:
  \<open>mkdir\<close>, \<open>writeFile\<close> (path, content), \<open>unlink\<close>, \<open>copyFile\<close> (source,
  destination), a write stream (path, the \<open>mode\<close> option if one is passed, the content
  piped into it), \<open>rename\<close>, and \<open>https.get\<close> (the URL and \<open>maxRedirects\<close>).
\<close>

datatype effect =
    Mkdir string
  | WriteFile string string
  | Unlink string
  | CopyFile string string
  | CreateWriteStream string "nat option" string
  | Rename string string
  | HttpsGet string int

text \<open>
  What the modelled functions read from Node.js and the operating system, as one
  snapshot: \<open>process.pid\<close>; \<open>process.kill(pid, signal)\<close> (the code of the error it
  throws, \<open>None\<close> when it returns);
  \<open>fs.promises.stat\<close> (the error code, \<open>None\<close> on success); \<open>fs.promises.readFile\<close>
  (the error code or the content); for a file operation that is attempted, the error code
  it fails with, if any; \<open>path.resolve\<close> of its arguments and \<open>path.dirname\<close>.
\<close>

record Sys =
  process_pid :: nat
  process_kill :: "int \<Rightarrow> nat \<Rightarrow> string option"
  fs_stat :: "string \<Rightarrow> string option"
  fs_readFile :: "string \<Rightarrow> string + string"
  fs_fail :: "effect \<Rightarrow> string option"
  path_resolve :: "string list \<Rightarrow> string"
  path_dirname :: "string \<Rightarrow> string"

text \<open>
  The \<open>URL\<close> objects of Node.js, by the three properties the code reads. Assigning to
  \<open>port\<close> is an operation of the runtime (below): it may change \<open>href\<close> as well.
\<close>

record URL =
  href :: string
  pathname :: string
  url_port :: string

text \<open>
  An HTTP exchange ends in the request's \<open>error\<close> event or in a response: its status
  code, its \<open>content-length\<close> header when that is a string, and the chunks of its
  \<open>data\<close> events.
\<close>

datatype http_outcome =
    RequestError string
  | Response nat "string option" "string list"

text \<open>
  The network and the configuration: the \<open>URL\<close> constructor (\<open>None\<close> when it
  throws), the assignment \<open>url.port = value\<close> (the URL afterwards), the outcome of
  \<open>https.get\<close> for a URL and a redirect limit (the other request options are part of this
  parameter), and \<open>resolveConfig\<close>.
\<close>

record Http =
  newURL :: "string \<Rightarrow> URL option"
  URL_set_port :: "URL \<Rightarrow> string \<Rightarrow> URL"
  https_get :: "URL \<Rightarrow> int \<Rightarrow> http_outcome"
  resolveConfig :: "string \<Rightarrow> string option"

text \<open>
  The archive readers. A tar stream delivers entries (name and content) and may then
  fail while opening, unzipping or untarring, with the text of the underlying error. The
  zip reader fails to open the archive, or delivers entries whose read stream opens or
  fails.
\<close>

datatype tar_failure = OpenFailed string | UnzipFailed string | UntarFailed string

record Archives =
  tar_entries :: "string \<Rightarrow> (string \<times> string) list \<times> tar_failure option"
  zip_entries :: "string \<Rightarrow> error + (string \<times> (error + string)) list"

subsection \<open>Strings and numbers\<close>

text \<open>
  The white space and line terminators that \<open>trim\<close> and \<open>parseInt\<close> skip: of the code
  units below 256 these are tab, line feed, vertical tab, form feed, carriage return,
  space and the no-break space \<open>U+00A0\<close>.
\<close>

definition isWhiteSpace :: "char \<Rightarrow> bool" where
  "isWhiteSpace c =
     (c \<in> {CHR 0x09, CHR 0x0A, CHR 0x0B, CHR 0x0C, CHR 0x0D, CHR 0x20, CHR 0xA0})"

definition trim :: "string \<Rightarrow> string" where
  "trim s = rev (dropWhile isWhiteSpace (rev (dropWhile isWhiteSpace s)))"

text \<open>\<open>String.prototype.split\<close> with a separator of one character.\<close>

fun splitOn :: "char \<Rightarrow> string \<Rightarrow> string list" where
  "splitOn sep [] = [[]]"
| "splitOn sep (c # cs) =
     (if c = sep then [] # splitOn sep cs
      else (case splitOn sep cs of x # xs \<Rightarrow> (c # x) # xs | [] \<Rightarrow> [[c]]))"

text \<open>Array indexing: \<open>undefined\<close> out of range.\<close>

definition index :: "'a list \<Rightarrow> nat \<Rightarrow> 'a option" where
  "index xs i = (if i < length xs then Some (xs ! i) else None)"

definition isHexDigit :: "char \<Rightarrow> bool" where
  "isHexDigit c = (toLowerChar c \<in> set ''0123456789abcdef'')"

definition hexToNat :: "string \<Rightarrow> nat" where
  "hexToNat ds =
     foldl (\<lambda>n c. 16 * n + (if isDigit c then of_char c - 48 else of_char (toLowerChar c) - 87)) 0 ds"

text \<open>
  \<open>parseInt(s)\<close> without a radix: leading white space, a sign, then hexadecimal digits
  after \<open>0x\<close> or \<open>0X\<close> and decimal digits otherwise; \<open>NaN\<close> (\<open>None\<close>) when no digit
  follows. \<open>parseInt(s, 10)\<close> reads decimal digits only.
\<close>

definition parseInt :: "string \<Rightarrow> int option" where
  "parseInt s =
     (let t = dropWhile isWhiteSpace s;
          sign = (if take 1 t = ''-'' then - 1 else 1 :: int);
          u = (if take 1 t = ''-'' \<or> take 1 t = ''+'' then drop 1 t else t)
      in if take 2 (toLowerCase u) = ''0x'' then
           (let ds = takeWhile isHexDigit (drop 2 u)
            in if ds = [] then None else Some (sign * int (hexToNat ds)))
         else
           (let ds = takeWhile isDigit u
            in if ds = [] then None else Some (sign * int (digitsToNat ds))))"

definition parseInt10 :: "string \<Rightarrow> int option" where
  "parseInt10 s =
     (let t = dropWhile isWhiteSpace s;
          sign = (if take 1 t = ''-'' then - 1 else 1 :: int);
          u = (if take 1 t = ''-'' \<or> take 1 t = ''+'' then drop 1 t else t);
          ds = takeWhile isDigit u
      in if ds = [] then None else Some (sign * int (digitsToNat ds)))"

subsection \<open>utils: the file system and processes\<close>

text \<open>
  \<open>process.kill\<close> on a number that may be \<open>NaN\<close>: \<open>NaN\<close> is not a valid pid and the
  call throws.
\<close>

definition kill_signal :: "Sys \<Rightarrow> int option \<Rightarrow> nat \<Rightarrow> string option" where
  "kill_signal sys pid signal =
     (case pid of
        None \<Rightarrow> Some ''ERR_INVALID_ARG_TYPE''
      | Some p \<Rightarrow> process_kill sys p signal)"

text \<open>
  \<open>isAlive(pid)\<close>: \<open>true\<close> when \<open>process.kill(pid, 0)\<close> returns, \<open>false\<close> when it
  throws, whatever the error. The pid is a result of \<open>parseInt\<close> here, never \<open>null\<close> or
  \<open>undefined\<close>.
\<close>

definition isAlive :: "Sys \<Rightarrow> int option \<Rightarrow> bool" where
  "isAlive sys pid = (case kill_signal sys pid 0 of None \<Rightarrow> True | Some err \<Rightarrow> False)"

text \<open>
  \<open>statPath\<close>: \<open>Inr True\<close> for a \<open>Stats\<close> object, \<open>Inr False\<close> for \<open>undefined\<close>.
\<close>

definition statPath :: "Sys \<Rightarrow> string \<Rightarrow> error + bool" where
  "statPath sys p =
     (case fs_stat sys p of
        None \<Rightarrow> Inr True
      | Some code \<Rightarrow>
          if code \<in> set [''ENOENT'', ''EACCES''] then Inr False else Inl (SystemError code))"

definition pathExists :: "Sys \<Rightarrow> string \<Rightarrow> error + bool" where
  "pathExists sys p = (case statPath sys p of Inl e \<Rightarrow> Inl e | Inr st \<Rightarrow> Inr st)"

section \<open>LockFile\<close>

datatype LockFileEvents = LockEvent | UnlockEvent

text \<open>
  A \<open>LockFile\<close> object: \<open>this.file\<close> and \<open>this.uuid\<close> (set by the constructor, cleared by
  \<open>unlockCleanup\<close>), its set \<open>files\<close>, and the events it has emitted on \<open>events\<close> with
  their argument, oldest first. \<open>files\<close>, \<open>events\<close> and \<open>mutex\<close> are instance fields in
  this source. The mutex is not modelled: calls do not interleave here.
\<close>

record LockFile =
  this_file :: "string option"
  this_uuid :: "string option"
  files :: "string set"
  events :: "(LockFileEvents \<times> string) list"

text \<open>
  The constants \<open>fileData\<close> and \<open>readout\<close> of \<open>checkLock\<close>. The \<open>catch\<close> block of
  \<open>checkLock\<close> calls \<open>utils.errorWithCode\<close>, which utils does not export: every error
  of \<open>readFile\<close>, \<open>ENOENT\<close> included, ends in the \<open>TypeError\<close> of that call.
\<close>

definition fileData :: "string \<Rightarrow> string list" where
  "fileData content = splitOn (CHR '' '') (trim content)"

definition readout :: "string \<Rightarrow> int option" where
  "readout content =
     (case index (fileData content) 0 of None \<Rightarrow> None | Some s \<Rightarrow> parseInt s)"

definition checkLock :: "Sys \<Rightarrow> LockFile \<Rightarrow> string \<Rightarrow> string option \<Rightarrow> error + LockFileStatus" where
  "checkLock sys this f uuid_arg =
     (case pathExists sys f of
        Inl e \<Rightarrow> Inl e
      | Inr False \<Rightarrow> Inr available
      | Inr True \<Rightarrow>
          (case fs_readFile sys f of
             Inl code \<Rightarrow> Inl (TypeError ''utils.errorWithCode is not a function'')
           | Inr content \<Rightarrow>
               if readout content = Some (int (process_pid sys)) then
                 (if f \<notin> files this then Inr available
                  else if uuid_arg \<noteq> None then
                    Inr (if uuid_arg = index (fileData content) 1
                         then availableInstance else lockedSelf)
                  else Inr lockedSelf)
               else
                 Inr (if isAlive sys (readout content) then lockedDifferent else available)))"

text \<open>
  \<open>unlockCleanup(fileio)\<close>: the object afterwards and the effects. A failing \<open>unlink\<close> is
  caught and logged.
\<close>

definition unlockCleanup :: "bool \<Rightarrow> LockFile \<Rightarrow> LockFile \<times> effect list" where
  "unlockCleanup fileio this =
     (case this_file this of
        None \<Rightarrow> (this, [])
      | Some f \<Rightarrow>
          (this\<lparr>this_file := None, this_uuid := None, files := files this - {f},
                 events := events this @ [(UnlockEvent, f)]\<rparr>,
           if fileio then [Unlink f] else []))"

definition unlock :: "Sys \<Rightarrow> LockFile \<Rightarrow> error + LockFile \<times> effect list" where
  "unlock sys this =
     (case this_file this of
        None \<Rightarrow> Inr (this, [])
      | Some f \<Rightarrow>
          if length f \<le> 0 then Inr (this, [])
          else
            (case checkLock sys this f (this_uuid this) of
               Inl e \<Rightarrow> Inl e
             | Inr available \<Rightarrow> Inr (unlockCleanup False this)
             | Inr availableInstance \<Rightarrow> Inr (unlockCleanup True this)
             | Inr lockedSelf \<Rightarrow> Inl (UnableToUnlockLockfileError True f)
             | Inr lockedDifferent \<Rightarrow> Inl (UnableToUnlockLockfileError False f)))"

text \<open>
  The constructor \<open>new LockFile(file, uuid)\<close>: the field initialisers give every object
  a set and an emitter of its own.
\<close>

definition LockFile_new :: "string option \<Rightarrow> string option \<Rightarrow> LockFile" where
  "LockFile_new f u = \<lparr>this_file = f, this_uuid = u, files = {}, events = []\<rparr>"

text \<open>
  \<open>createLock(file)\<close> on the object \<open>this\<close>, with the value \<open>uuidv4()\<close> returns as an
  argument. \<open>None\<close> stands for the branch that returns \<open>this.waitForLock(file)\<close>;
  otherwise the result is \<open>this\<close> afterwards, the new handle and the effects. An error of
  \<open>mkdir\<close> or \<open>writeFile\<close> is caught by the \<open>catch\<close> block, which rethrows nothing.
\<close>

definition createLock ::
  "Sys \<Rightarrow> string \<Rightarrow> string \<Rightarrow> LockFile \<Rightarrow> (LockFile \<times> LockFile \<times> effect list) option" where
  "createLock sys uuid_new f this =
     (if f \<in> files this then None
      else
        (let d = Mkdir (path_dirname sys f);
             w = WriteFile f (showNat (process_pid sys) @ '' '' @ uuid_new);
             handle = LockFile_new (Some f) (Some uuid_new)
         in if fs_fail sys d \<noteq> None then Some (this, handle, [])
            else if fs_fail sys w \<noteq> None then Some (this, handle, [d])
            else Some (this\<lparr>files := insert f (files this),
                             events := events this @ [(LockEvent, f)]\<rparr>, handle, [d, w])))"

text \<open>
  \<open>lock(file)\<close> up to the point where it waits: \<open>Inr None\<close> stands for the calls that
  continue in \<open>waitForLock\<close>.
\<close>

definition lock ::
  "Sys \<Rightarrow> string \<Rightarrow> string \<Rightarrow> LockFile \<Rightarrow>
   error + (LockFile \<times> LockFile \<times> effect list) option" where
  "lock sys uuid_new f this =
     (let useFile = path_resolve sys [trim f] in
      if \<not> 0 < length useFile then Inl (Error ''Provided Path for lock file is length of 0'')
      else
        (case checkLock sys this useFile None of
           Inl e \<Rightarrow> Inl e
         | Inr lockedDifferent \<Rightarrow> Inr None
         | Inr lockedSelf \<Rightarrow> Inr None
         | Inr available \<Rightarrow>
             (case createLock sys uuid_new useFile this of
                None \<Rightarrow> Inr None
              | Some (this1, handle, effs) \<Rightarrow> Inr (Some (this1, handle, effs)))
         | Inr status \<Rightarrow> Inl (UnknownLockfileStatusError status)))"

section \<open>MinioBinaryDownload\<close>

text \<open>
  The fields of a \<open>MinioBinaryDownload\<close> object that the modelled methods use:
  \<open>downloadDir\<close>, \<open>dlProgress.current\<close>, \<open>dlProgress.length\<close> (\<open>None\<close> for \<open>NaN\<close>) and
  \<open>_downloadingUrl\<close>. The rounded megabyte figures and the progress line are not
  modelled.
\<close>

record MinioBinaryDownload =
  downloadDir :: string
  dlProgress_current :: nat
  dlProgress_length :: "int option"
  downloadingUrl :: "string option"

text \<open>
  The request options that \<open>download\<close> builds and \<open>httpDownload\<close> reads:
  \<open>method\<close> (here \<open>http_method\<close>), and \<open>path\<close>, which \<open>httpDownload\<close> tests and
  \<open>download\<close> never sets. The options \<open>rejectUnauthorized\<close>, \<open>protocol\<close> and
  \<open>agent\<close> only reach \<open>https.get\<close>.
\<close>

record httpOptions =
  http_method :: string
  path :: "string option"

definition assignDownloadingURL :: "URL \<Rightarrow> MinioBinaryDownload \<Rightarrow> MinioBinaryDownload" where
  "assignDownloadingURL url this = this\<lparr>downloadingUrl := Some (href url)\<rparr>"

definition message403 :: string where
  \<open>message403 =
     ''Status Code is 403 (Minio's 404)'' @ [CHR 0x0A] @
     ''This means that the requested version-platform combination doesn't exist'' @ [CHR 0x0A] @
     ''Try to use different version 'new MinioTestServer({ binary: { version: 'X.Y.Z' } })'' @
     [CHR 0x27, CHR 0x0A] @
     ''List of available versions can be found here: '' @
     ''https://www.miniob.com/download-center/community/releases/archive''\<close>

text \<open>
  The option \<open>maxRedirects\<close> of \<open>httpDownload\<close>: \<open>parseInt\<close> of the configured value,
  and \<open>2\<close> when that is \<open>NaN\<close>.
\<close>

definition maxRedirects :: "Http \<Rightarrow> int" where
  "maxRedirects net =
     (case parseInt (orElse (resolveConfig net ''MAX_REDIRECTS'') []) of
        None \<Rightarrow> 2
      | Some n \<Rightarrow> n)"

text \<open>
  \<open>httpDownload(url, httpOptions, downloadLocation, tempDownloadLocation)\<close>: the value
  the promise resolves to or the error it rejects with, the object afterwards, and the
  effects. Every \<open>data\<close> event adds the length of its chunk to \<open>dlProgress.current\<close>.
\<close>

definition httpDownload ::
  "Http \<Rightarrow> URL \<Rightarrow> httpOptions \<Rightarrow> string \<Rightarrow> string \<Rightarrow> MinioBinaryDownload \<Rightarrow>
   (error + string) \<times> MinioBinaryDownload \<times> effect list" where
  \<open>httpDownload net url opts downloadLocation tempDownloadLocation this =
     (let this1 = assignDownloadingURL url this;
          downloadUrl = href url;
          request = HttpsGet (href url) (maxRedirects net)
      in case https_get net url (maxRedirects net) of
           RequestError msg \<Rightarrow> (Inl (DownloadError downloadUrl msg), this1, [request])
         | Response statusCode contentLength chunks \<Rightarrow>
             if statusCode \<noteq> 200 then
               (if statusCode = 403
                then (Inl (DownloadError downloadUrl message403), this1, [request])
                else (Inl (DownloadError downloadUrl
                             (''Status Code isnt 200! (it is '' @ showNat statusCode @ '')'')),
                      this1, [request]))
             else
               (case contentLength of
                  None \<Rightarrow>
                    (Inl (DownloadError downloadUrl ''Response header "content-length" is empty!''),
                     this1, [request])
                | Some header \<Rightarrow>
                    (let this2 = this1\<lparr>dlProgress_current := sum_list (map length chunks),
                                       dlProgress_length := parseInt10 header\<rparr>;
                         written = CreateWriteStream tempDownloadLocation None (concat chunks)
                     in if (case dlProgress_length this2 of
                              None \<Rightarrow> False
                            | Some declared \<Rightarrow> int (dlProgress_current this2) < declared)
                           \<and> \<not> (case path opts of None \<Rightarrow> False | Some p \<Rightarrow> endsWith p ''.md5'')
                        then (Inl (DownloadError downloadUrl
                                     (''Too small ('' @ showNat (dlProgress_current this2) @
                                      '' bytes) minio binary downloaded.'')),
                              this2, [request, written])
                        else (Inr downloadLocation, this2,
                              [request, written, Rename tempDownloadLocation downloadLocation]))))\<close>

text \<open>
  \<open>download(downloadUrl)\<close>. The last segment of the path is what
  \<open>pathname.split("/").pop()\<close> gives.
\<close>

definition filename_of :: "URL \<Rightarrow> string" where
  "filename_of url = (case rev (splitOn (CHR ''/'') (pathname url)) of [] \<Rightarrow> [] | x # _ \<Rightarrow> x)"

definition download ::
  "Sys \<Rightarrow> Http \<Rightarrow> string \<Rightarrow> MinioBinaryDownload \<Rightarrow>
   (error + string) \<times> MinioBinaryDownload \<times> effect list" where
  \<open>download sys net downloadUrl this =
     (case newURL net downloadUrl of
        None \<Rightarrow> (Inl (TypeError ''Invalid URL''), this, [])
      | Some u \<Rightarrow>
          (let urlObject = URL_set_port net u (if url_port u = [] then ''443'' else url_port u);
               requestOptions = \<lparr>http_method = ''GET'', path = None\<rparr>;
               filename = filename_of urlObject
           in if filename = [] then
                (Inl (Error (''MinioBinaryDownload: missing filename for url "'' @ downloadUrl @ ''"'')),
                 this, [])
              else
                (let downloadLocation = path_resolve sys [downloadDir this, filename];
                     tempDownloadLocation =
                       path_resolve sys [downloadDir this, filename @ ''.downloading'']
                 in case pathExists sys downloadLocation of
                      Inl e \<Rightarrow> (Inl e, this, [])
                    | Inr True \<Rightarrow> (Inr downloadLocation, this, [])
                    | Inr False \<Rightarrow>
                        httpDownload net urlObject requestOptions downloadLocation
                          tempDownloadLocation (assignDownloadingURL urlObject this))))\<close>

subsection \<open>Extraction\<close>

text \<open>
  The expressions of \<open>extract\<close>: the entry filter \<^verbatim>\<open>/(?:bin\/(?:minio(?:\.exe)?))$/i\<close>,
  and the archive tests \<^verbatim>\<open>/(.tar.gz|.tgz)$/\<close> and \<^verbatim>\<open>/.zip$/\<close>, in which a dot
  matches every character but a line terminator.
\<close>

definition filter_entry :: "string \<Rightarrow> bool" where
  "filter_entry name =
     (endsWith (toLowerCase name) ''bin/minio'' \<or> endsWith (toLowerCase name) ''bin/minio.exe'')"

definition dot :: "char \<Rightarrow> bool" where
  "dot c = (c \<noteq> CHR 0x0A \<and> c \<noteq> CHR 0x0D)"

definition isTarGz :: "string \<Rightarrow> bool" where
  "isTarGz s =
     ((case rev s of
         z # g # c2 # r # a # t # c1 # _ \<Rightarrow> [t, a, r] = ''tar'' \<and> [g, z] = ''gz'' \<and> dot c1 \<and> dot c2
       | _ \<Rightarrow> False)
      \<or> (case rev s of z # g # t # c # _ \<Rightarrow> [t, g, z] = ''tgz'' \<and> dot c | _ \<Rightarrow> False))"

definition isZip :: "string \<Rightarrow> bool" where
  "isZip s = (case rev s of p # i # z # c # _ \<Rightarrow> [z, i, p] = ''zip'' \<and> dot c | _ \<Rightarrow> False)"

text \<open>The file mode \<open>0o775\<close>.\<close>

definition mode_775 :: nat where
  "mode_775 = 7 * 64 + 7 * 8 + 5"

text \<open>
  \<open>extractTarGz\<close>: every entry the stream delivers is piped into a write stream on
  \<open>extractPath\<close> when the filter accepts its name; a failure of the stream rejects.
\<close>

definition extractTarGz ::
  "Archives \<Rightarrow> string \<Rightarrow> string \<Rightarrow> (string \<Rightarrow> bool) \<Rightarrow> error option \<times> effect list" where
  "extractTarGz ar minioArchive extractPath accept =
     (case tar_entries ar minioArchive of
        (entries, failure) \<Rightarrow>
          (case failure of
             None \<Rightarrow> None
           | Some (OpenFailed err) \<Rightarrow>
               Some (GenericMMSError (''Unable to open tarball '' @ minioArchive @ '': '' @ err))
           | Some (UnzipFailed err) \<Rightarrow>
               Some (GenericMMSError (''Error during unzip for '' @ minioArchive @ '': '' @ err))
           | Some (UntarFailed err) \<Rightarrow>
               Some (GenericMMSError (''Error during untar for '' @ minioArchive @ '': '' @ err)),
           map (\<lambda>(name, content). CreateWriteStream extractPath (Some mode_775) content)
             (filter (\<lambda>(name, content). accept name) entries)))"

text \<open>
  \<open>extractZip\<close>: entries are read one by one; an entry the filter accepts is opened
  and piped into a write stream on \<open>extractPath\<close>; a failure to open it rejects and
  stops the reading.
\<close>

fun extractZipEntries ::
  "string \<Rightarrow> (string \<Rightarrow> bool) \<Rightarrow> (string \<times> (error + string)) list \<Rightarrow> error option \<times> effect list" where
  "extractZipEntries extractPath accept [] = (None, [])"
| "extractZipEntries extractPath accept ((name, r) # es) =
     (if \<not> accept name then extractZipEntries extractPath accept es
      else
        (case r of
           Inl e \<Rightarrow> (Some e, [])
         | Inr content \<Rightarrow>
             (case extractZipEntries extractPath accept es of
                (res, effs) \<Rightarrow>
                  (res, CreateWriteStream extractPath (Some mode_775) content # effs))))"

definition extractZip ::
  "Archives \<Rightarrow> string \<Rightarrow> string \<Rightarrow> (string \<Rightarrow> bool) \<Rightarrow> error option \<times> effect list" where
  "extractZip ar minioArchive extractPath accept =
     (case zip_entries ar minioArchive of
        Inl e \<Rightarrow> (Some e, [])
      | Inr es \<Rightarrow> extractZipEntries extractPath accept es)"

text \<open>
  \<open>extract(minioArchive)\<close>, with the path that \<open>this.getPath()\<close> resolves to as an
  argument (\<open>extract\<close> is a command of Isabelle, hence the longer name).
\<close>

definition extract_archive ::
  "Sys \<Rightarrow> Archives \<Rightarrow> string \<Rightarrow> string \<Rightarrow> (error + string) \<times> effect list" where
  "extract_archive sys ar minioFullPath minioArchive =
     (case fs_fail sys (CopyFile minioArchive minioFullPath) of
        Some code \<Rightarrow> (Inl (SystemError code), [])
      | None \<Rightarrow>
          (case (if isTarGz minioArchive then extractTarGz ar minioArchive minioFullPath filter_entry
                 else if isZip minioArchive then extractZip ar minioArchive minioFullPath filter_entry
                 else (None, [])) of
             (Some e, effs) \<Rightarrow> (Inl e, CopyFile minioArchive minioFullPath # effs)
           | (None, effs) \<Rightarrow> (Inr minioFullPath, CopyFile minioArchive minioFullPath # effs)))"

section \<open>Example snapshots\<close>

text \<open>
  A process with pid 42, the only live process, on an empty file system where every
  operation succeeds; and the same with one readable file.
\<close>

definition sys_empty :: Sys where
  "sys_empty =
     \<lparr>process_pid = 42,
      process_kill = (\<lambda>p signal. if p = 42 then None else Some ''ESRCH''),
      fs_stat = (\<lambda>p. Some ''ENOENT''),
      fs_readFile = (\<lambda>p. Inl ''ENOENT''),
      fs_fail = (\<lambda>e. None),
      path_resolve = (\<lambda>segs. joinWith ''/'' segs),
      path_dirname = (\<lambda>p. rev (drop 1 (dropWhile (\<lambda>c. c \<noteq> CHR ''/'') (rev p))))\<rparr>"

definition sys_file :: "string \<Rightarrow> string \<Rightarrow> Sys" where
  "sys_file f content =
     sys_empty\<lparr>fs_stat := (\<lambda>p. if p = f then None else Some ''ENOENT''),
               fs_readFile := (\<lambda>p. if p = f then Inr content else Inl ''ENOENT'')\<rparr>"

text \<open>
  A network where the URLs under \<open>https://dl.min.io\<close> and \<open>http://dl.min.io\<close> parse,
  every request has the given outcome, and \<open>MAX_REDIRECTS\<close> has its default \<open>2\<close>.
  Assigning a port to one of these URLs follows the URL standard: the default port of
  the scheme (443 for \<open>https\<close>) leaves the URL without a port, any other port is stored
  and shows in \<open>href\<close>. Then an object that downloads into \<open>/d\<close>, and archive readers
  that deliver the given tar entries.
\<close>

definition net_example :: "http_outcome \<Rightarrow> Http" where
  "net_example outcome =
     \<lparr>newURL = (\<lambda>s. if take 17 s = ''https://dl.min.io''
                     then Some \<lparr>href = s, pathname = drop 17 s, url_port = []\<rparr>
                     else if take 16 s = ''http://dl.min.io''
                     then Some \<lparr>href = s, pathname = drop 16 s, url_port = []\<rparr>
                     else None),
      URL_set_port = (\<lambda>u v. if take 17 (href u) = ''https://dl.min.io''
                            then (if v = ''443'' then u else
                                  u\<lparr>href := ''https://dl.min.io:'' @ v @ pathname u, url_port := v\<rparr>)
                            else (if v = ''80'' then u else
                                  u\<lparr>href := ''http://dl.min.io:'' @ v @ pathname u, url_port := v\<rparr>)),
      https_get = (\<lambda>u n. outcome),
      resolveConfig = (\<lambda>k. if k = ''MAX_REDIRECTS'' then Some ''2'' else None)\<rparr>"

definition downloader_example :: MinioBinaryDownload where
  "downloader_example =
     \<lparr>downloadDir = ''/d'', dlProgress_current = 0, dlProgress_length = Some 0,
      downloadingUrl = None\<rparr>"

definition archives_example :: "(string \<times> string) list \<Rightarrow> Archives" where
  "archives_example es = \<lparr>tar_entries = (\<lambda>a. (es, None)), zip_entries = (\<lambda>a. Inr [])\<rparr>"

section \<open>Evaluation lemmas\<close>

lemmas coerce_eval =
  semver_coerce_def coerceAt_def isDigit_def numericIdentifier_def digitsToNat_def
  MAX_SAFE_INTEGER_def Let_def

lemma coerce_8_2: "semver_coerce ''8.2'' = Some (8, 2, 0)"
  by (simp add: coerce_eval)

lemma coerce_4_4_2: "semver_coerce ''4.4.2'' = Some (4, 4, 2)"
  by (simp add: coerce_eval)

lemma coerce_latest: "semver_coerce ''latest'' = None"
  by (simp add: coerce_eval)

lemma coerce_v50_latest: "semver_coerce ''v5.0-latest'' = Some (5, 0, 0)"
  by (simp add: coerce_eval)

lemma coerce_leading_zero: "semver_coerce ''08.04'' = None"
  by (simp add: coerce_eval)

lemma coerce_long_run: "semver_coerce ''12345678901234567.5'' = Some (5, 0, 0)"
  by (simp add: coerce_eval)

lemma latest_v50: "testVersionIsLatest ''v5.0-latest'' \<and> \<not> testVersionIsLatest ''4.4.2''"
  by (simp add: testVersionIsLatest_def isDigit_def Let_def)

section \<open>Claims about MinioBinaryDownloadUrl\<close>

text \<open>
  C7, as amended. \<open>translatePlatform\<close> maps \<open>darwin\<close> to \<open>darwin\<close>; \<open>win32\<close> to
  \<open>windows\<close> when the version coerces to at least 4.3.0 or does not coerce, and to
  \<open>win32\<close> otherwise; \<open>linux\<close> and \<open>elementary OS\<close> to \<open>linux\<close>; \<open>sunos\<close> to
  \<open>sunos5\<close>; every other platform fails with \<open>UnknownPlatformError\<close> carrying the
  platform.
\<close>

theorem C7_translatePlatform:
  "translatePlatform version ''darwin'' = Inr ''darwin''
   \<and> translatePlatform version ''win32'' =
       Inr (case semver_coerce version of
              None \<Rightarrow> ''windows''
            | Some v \<Rightarrow> if semver_gte v (4, 3, 0) then ''windows'' else ''win32'')
   \<and> translatePlatform version ''linux'' = Inr ''linux''
   \<and> translatePlatform version ''elementary OS'' = Inr ''linux''
   \<and> translatePlatform version ''sunos'' = Inr ''sunos5''
   \<and> (platform \<notin> {''darwin'', ''win32'', ''linux'', ''elementary OS'', ''sunos''} \<longrightarrow>
        translatePlatform version platform = Inl (UnknownPlatformError platform))"
  by (simp add: translatePlatform_def split: option.split)

theorem C7_translatePlatform_witness:
  "''freebsd'' \<notin> {''darwin'', ''win32'', ''linux'', ''elementary OS'', ''sunos''}
   \<and> translatePlatform ''4.4.2'' ''freebsd'' = Inl (UnknownPlatformError ''freebsd'')
   \<and> translatePlatform ''4.4.2'' ''win32'' = Inr ''windows''"
  using C7_translatePlatform [of "''4.4.2''" "''freebsd''"]
  by (simp add: coerce_4_4_2 semver_gte_def semver_lt_def)

text \<open>
  C7 as the specification states it fails: \<open>sunos\<close> is none of \<open>darwin\<close>, \<open>win32\<close>,
  \<open>linux\<close> and \<open>elementary OS\<close>, and it is translated instead of rejected.
\<close>

theorem C7_sunos_counterexample:
  "translatePlatform ''4.4.2'' ''sunos'' = Inr ''sunos5''
   \<and> translatePlatform ''4.4.2'' ''sunos'' \<noteq> Inl (UnknownPlatformError ''sunos'')"
  by (simp add: translatePlatform_def)

text \<open>
  C6, as amended. For arch \<open>aarch64\<close> and a requested version that coerces,
  \<open>getRhelVersionString\<close> fails with \<open>KnownVersionIncompatibilityError\<close> whenever the
  release coerces below 8.2.0, and also whenever the release coerces and the version
  coerces below 4.4.2 without matching the \<open>v<major>.<minor>-latest\<close> sentinel. A version
  that does not coerce fails with \<open>UnknownVersionError\<close> for every arch and release; a
  release that does not coerce gives \<open>rhel70\<close>. Release 8.2 with version 4.4.2 gives
  \<open>rhel82\<close>.
\<close>

theorem C6_getRhelVersionString:
  "(semver_coerce version = Some v \<and> semver_coerce release = Some r \<and> semver_lt r (8, 2, 0) \<longrightarrow>
      getRhelVersionString ''aarch64'' version release =
        Inl (KnownVersionIncompatibilityError (''Rhel '' @ release) version ''>=4.4.2''
               (Some ''ARM64(aarch64) support for rhel is only for rhel82 or higher'')))
   \<and> (semver_coerce version = Some v \<and> semver_coerce release = Some r \<and>
       semver_lt v (4, 4, 2) \<and> \<not> testVersionIsLatest version \<longrightarrow>
      (\<exists>extra. getRhelVersionString ''aarch64'' version release =
        Inl (KnownVersionIncompatibilityError (''Rhel '' @ release) version ''>=4.4.2'' extra)))
   \<and> (semver_coerce version = None \<longrightarrow>
      getRhelVersionString arch version release = Inl (UnknownVersionError version))
   \<and> (semver_coerce version = Some v \<and> semver_coerce release = None \<longrightarrow>
      getRhelVersionString arch version release = Inr ''rhel70'')
   \<and> getRhelVersionString ''aarch64'' ''4.4.2'' ''8.2'' = Inr ''rhel82''"
  by (simp add: getRhelVersionString_def coerce_8_2 coerce_4_4_2 latest_v50 semver_lt_def)

theorem C6_getRhelVersionString_witness:
  "getRhelVersionString ''aarch64'' ''4.4.2'' ''7'' =
     Inl (KnownVersionIncompatibilityError ''Rhel 7'' ''4.4.2'' ''>=4.4.2''
            (Some ''ARM64(aarch64) support for rhel is only for rhel82 or higher''))
   \<and> (\<exists>extra. getRhelVersionString ''aarch64'' ''4.0.0'' ''8.2'' =
        Inl (KnownVersionIncompatibilityError ''Rhel 8.2'' ''4.0.0'' ''>=4.4.2'' extra))
   \<and> getRhelVersionString ''x64'' ''latest'' ''8.2'' = Inl (UnknownVersionError ''latest'')
   \<and> getRhelVersionString ''x64'' ''4.4.2'' ''rolling'' = Inr ''rhel70''"
proof -
  have c7: "semver_coerce ''7'' = Some (7, 0, 0)"
    by (simp add: coerce_eval)
  have c400: "semver_coerce ''4.0.0'' = Some (4, 0, 0)"
    by (simp add: coerce_eval)
  have cr: "semver_coerce ''rolling'' = None"
    by (simp add: coerce_eval)
  have nl: "\<not> testVersionIsLatest ''4.0.0''"
    by (simp add: testVersionIsLatest_def)
  show ?thesis
    using C6_getRhelVersionString [of "''4.4.2''" "(4, 4, 2)" "''7''" "(7, 0, 0)" "''x64''"]
      C6_getRhelVersionString [of "''4.0.0''" "(4, 0, 0)" "''8.2''" "(8, 2, 0)" "''x64''"]
      C6_getRhelVersionString [of "''latest''" "(0, 0, 0)" "''8.2''" "(8, 2, 0)" "''x64''"]
      C6_getRhelVersionString [of "''4.4.2''" "(4, 4, 2)" "''rolling''" "(0, 0, 0)" "''x64''"]
    by (simp add: c7 c400 cr nl coerce_4_4_2 coerce_8_2 coerce_latest semver_lt_def)
qed

text \<open>
  C6 as the specification states it fails twice: with a release below 8.2 and a version
  that does not coerce the error is \<open>UnknownVersionError\<close>, and with a version below
  4.4.2 and a release that does not coerce the call succeeds.
\<close>

theorem C6_counterexample:
  "semver_coerce ''7'' = Some (7, 0, 0) \<and> semver_lt (7, 0, 0) (8, 2, 0)
   \<and> getRhelVersionString ''aarch64'' ''latest'' ''7'' = Inl (UnknownVersionError ''latest'')
   \<and> semver_coerce ''4.0.0'' = Some (4, 0, 0) \<and> semver_lt (4, 0, 0) (4, 4, 2)
   \<and> \<not> testVersionIsLatest ''4.0.0''
   \<and> getRhelVersionString ''aarch64'' ''4.0.0'' ''rolling'' = Inr ''rhel70''"
  by (simp add: getRhelVersionString_def coerce_eval semver_lt_def testVersionIsLatest_def)

section \<open>Claims about MinioInstance\<close>




section \<open>Claims about MinioServer\<close>

text \<open>
  C1, as amended. \<open>start\<close> in state \<open>starting\<close> throws a \<open>StateError\<close> carrying the
  allowed states \<open>new\<close>, \<open>stopped\<close> and the actual state, and leaves the server as it
  is. In every other state, \<open>running\<close> included, no \<open>StateError\<close> is thrown; instead a
  plain \<open>Error\<close> is thrown, and nothing changes, when the instance's \<open>minioProcess\<close> is
  still defined. Otherwise the state becomes \<open>starting\<close> and, when the start pipeline
  succeeds, \<open>running\<close>: two \<open>stateChange\<close> events in this order, and no error.
\<close>

theorem C1_start:
  \<open>(state this = starting \<longrightarrow>
      start startUpInstance killProcess cleanup forceSamePort this =
        (Some (StateError [new, stopped] starting), this))
   \<and> (state this \<noteq> starting \<and> minioProcessDefined this \<longrightarrow>
      start startUpInstance killProcess cleanup forceSamePort this =
        (Some (Error ''Cannot start because "instance.minioProcess" is already defined!''), this))
   \<and> (state this \<noteq> starting \<and> \<not> minioProcessDefined this \<and>
       startUpInstance forceSamePort (instanceInfo this) = (None, info) \<longrightarrow>
      start startUpInstance killProcess cleanup forceSamePort this =
        (None, this\<lparr>state := running, instanceInfo := info,
                    emitted := emitted this @ [starting, running]\<rparr>))\<close>
  by (cases "state this") (simp_all add: start_def stateChange_def)

theorem C1_start_witness:
  \<open>start (\<lambda>f i. (None, i)) (\<lambda>p. None) (\<lambda>s. (None, s)) False
      \<lparr>state = starting, instanceInfo = None, emitted = []\<rparr> =
     (Some (StateError [new, stopped] starting),
      \<lparr>state = starting, instanceInfo = None, emitted = []\<rparr>)
   \<and> start (\<lambda>f i. (None, i)) (\<lambda>p. None) (\<lambda>s. (None, s)) False
      \<lparr>state = stopped,
       instanceInfo = Some \<lparr>port = 9000, dataPath = ''/tmp/x'', ip = ''127.0.0.1'', tmpDir = None,
                             inst = \<lparr>minioProcess = Some 4242, killerProcess = None\<rparr>\<rparr>,
       emitted = []\<rparr> =
     (Some (Error ''Cannot start because "instance.minioProcess" is already defined!''),
      \<lparr>state = stopped,
       instanceInfo = Some \<lparr>port = 9000, dataPath = ''/tmp/x'', ip = ''127.0.0.1'', tmpDir = None,
                             inst = \<lparr>minioProcess = Some 4242, killerProcess = None\<rparr>\<rparr>,
       emitted = []\<rparr>)
   \<and> start (\<lambda>f i. (None, i)) (\<lambda>p. None) (\<lambda>s. (None, s)) False
      \<lparr>state = new, instanceInfo = None, emitted = []\<rparr> =
     (None, \<lparr>state = running, instanceInfo = None, emitted = [starting, running]\<rparr>)\<close>
  using
    C1_start [of "\<lparr>state = starting, instanceInfo = None, emitted = []\<rparr>"
      "\<lambda>f i. (None, i)" "\<lambda>p. None" "\<lambda>s. (None, s)" False None]
    C1_start [of "\<lparr>state = stopped,
       instanceInfo = Some \<lparr>port = 9000, dataPath = ''/tmp/x'', ip = ''127.0.0.1'', tmpDir = None,
                             inst = \<lparr>minioProcess = Some 4242, killerProcess = None\<rparr>\<rparr>,
       emitted = []\<rparr>"
      "\<lambda>f i. (None, i)" "\<lambda>p. None" "\<lambda>s. (None, s)" False None]
    C1_start [of "\<lparr>state = new, instanceInfo = None, emitted = []\<rparr>"
      "\<lambda>f i. (None, i)" "\<lambda>p. None" "\<lambda>s. (None, s)" False None]
  by (simp add: minioProcessDefined_def)

text \<open>
  C1 as the specification states it fails: a running server whose \<open>minioProcess\<close> is
  defined passes the state check and then fails the assertion, so \<open>start\<close> throws.
\<close>

theorem C1_running_counterexample:
  \<open>start (\<lambda>f i. (None, i)) (\<lambda>p. None) (\<lambda>s. (None, s)) False
      \<lparr>state = running,
       instanceInfo = Some \<lparr>port = 9000, dataPath = ''/tmp/x'', ip = ''127.0.0.1'', tmpDir = None,
                             inst = \<lparr>minioProcess = Some 4242, killerProcess = Some 4243\<rparr>\<rparr>,
       emitted = [starting, running]\<rparr> =
     (Some (Error ''Cannot start because "instance.minioProcess" is already defined!''),
      \<lparr>state = running,
       instanceInfo = Some \<lparr>port = 9000, dataPath = ''/tmp/x'', ip = ''127.0.0.1'', tmpDir = None,
                             inst = \<lparr>minioProcess = Some 4242, killerProcess = Some 4243\<rparr>\<rparr>,
       emitted = [starting, running]\<rparr>)\<close>
  by (simp add: start_def minioProcessDefined_def)

text \<open>
  C9. In a state that allows it (\<open>running\<close> or \<open>starting\<close>, with \<open>_instanceInfo\<close>
  defined) \<open>getUri\<close> returns \<open>mongodb://<host>:<port>/<db>\<close>, where the host is
  \<open>otherIp\<close> when that is given (a non-empty string) and \<open>127.0.0.1\<close> otherwise, the
  port is the port of \<open>_instanceInfo\<close> and the database is \<open>otherDb\<close> or empty. The
  \<open>ip\<close> stored in \<open>_instanceInfo\<close> has no influence on the result.
\<close>

theorem C9_getUri:
  "(instanceInfo this = Some info \<and> (state this = running \<or> state this = starting) \<longrightarrow>
      getUri this otherDb otherIp =
        Inr (''mongodb://'' @
             (case otherIp of None \<Rightarrow> ''127.0.0.1''
              | Some h \<Rightarrow> if h = [] then ''127.0.0.1'' else h) @
             '':'' @ showNat (port info) @ ''/'' @
             (case otherDb of None \<Rightarrow> [] | Some d \<Rightarrow> d)))
   \<and> getUri (this\<lparr>instanceInfo := Some (info\<lparr>ip := anyIp\<rparr>)\<rparr>) otherDb otherIp =
     getUri (this\<lparr>instanceInfo := Some info\<rparr>) otherDb otherIp"
  by (auto simp add: getUri_def uriTemplate_def orElse_def generateDbName_def
      split: option.split MinioServerStates.split)

theorem C9_getUri_witness:
  "getUri \<lparr>state = running,
           instanceInfo = Some \<lparr>port = 63208, dataPath = ''/tmp/x'', ip = ''10.0.0.7'', tmpDir = None,
                                 inst = \<lparr>minioProcess = Some 4242, killerProcess = Some 4243\<rparr>\<rparr>,
           emitted = [starting, running]\<rparr> None None = Inr ''mongodb://127.0.0.1:63208/''
   \<and> getUri \<lparr>state = running,
           instanceInfo = Some \<lparr>port = 63208, dataPath = ''/tmp/x'', ip = ''10.0.0.7'', tmpDir = None,
                                 inst = \<lparr>minioProcess = Some 4242, killerProcess = Some 4243\<rparr>\<rparr>,
           emitted = [starting, running]\<rparr> (Some ''db'') (Some ''192.168.1.5'') =
       Inr ''mongodb://192.168.1.5:63208/db''"
proof -
  have p: "showNat 63208 = ''63208''"
    by (simp add: showNat.simps digitChar_def)
  show ?thesis
    using
      C9_getUri [of "\<lparr>state = running,
           instanceInfo = Some \<lparr>port = 63208, dataPath = ''/tmp/x'', ip = ''10.0.0.7'', tmpDir = None,
                                 inst = \<lparr>minioProcess = Some 4242, killerProcess = Some 4243\<rparr>\<rparr>,
           emitted = [starting, running]\<rparr>"
        "\<lparr>port = 63208, dataPath = ''/tmp/x'', ip = ''10.0.0.7'', tmpDir = None,
          inst = \<lparr>minioProcess = Some 4242, killerProcess = Some 4243\<rparr>\<rparr>" None None "''x''"]
      C9_getUri [of "\<lparr>state = running,
           instanceInfo = Some \<lparr>port = 63208, dataPath = ''/tmp/x'', ip = ''10.0.0.7'', tmpDir = None,
                                 inst = \<lparr>minioProcess = Some 4242, killerProcess = Some 4243\<rparr>\<rparr>,
           emitted = [starting, running]\<rparr>"
        "\<lparr>port = 63208, dataPath = ''/tmp/x'', ip = ''10.0.0.7'', tmpDir = None,
          inst = \<lparr>minioProcess = Some 4242, killerProcess = Some 4243\<rparr>\<rparr>"
        "Some ''db''" "Some ''192.168.1.5''" "''x''"]
    by (simp add: p)
qed

section \<open>Claims about LockFile\<close>

lemma readout_42: "readout ''42 u1'' = Some 42" and fileData_42: "fileData ''42 u1'' = [''42'', ''u1'']"
  by (simp_all add: readout_def fileData_def trim_def isWhiteSpace_def index_def parseInt_def
      toLowerCase_def toLowerChar_def isDigit_def digitsToNat_def Let_def)

lemma readout_999: "readout ''999 u9'' = Some 999"
  by (simp add: readout_def fileData_def trim_def isWhiteSpace_def index_def parseInt_def
      toLowerCase_def toLowerChar_def isDigit_def digitsToNat_def Let_def)

lemma sys_empty_sel:
  "process_pid sys_empty = 42"
  "process_kill sys_empty p signal = (if p = 42 then None else Some ''ESRCH'')"
  "fs_readFile sys_empty g = Inl ''ENOENT''"
  "fs_fail sys_empty e = None"
  "path_resolve sys_empty segs = joinWith ''/'' segs"
  by (simp_all add: sys_empty_def)

lemma sys_file_sel:
  "process_pid (sys_file f c) = 42"
  "process_kill (sys_file f c) p signal = (if p = 42 then None else Some ''ESRCH'')"
  "fs_readFile (sys_file f c) f = Inr c"
  "fs_fail (sys_file f c) e = None"
  "path_resolve (sys_file f c) segs = joinWith ''/'' segs"
  by (simp_all add: sys_file_def sys_empty_def)

lemma pathExists_sys_file: "pathExists (sys_file f c) f = Inr True"
  by (simp add: pathExists_def statPath_def sys_file_def sys_empty_def)

lemma pathExists_sys_empty: "pathExists sys_empty f = Inr False"
  by (simp add: pathExists_def statPath_def sys_empty_def)

text \<open>
  A marker file that is there but cannot be read: whatever the error of \<open>readFile\<close>,
  \<open>checkLock\<close> throws the \<open>TypeError\<close> of its \<open>catch\<close> block and reports no status.
\<close>

lemma checkLock_read_error:
  "pathExists sys f = Inr True \<Longrightarrow> fs_readFile sys f = Inl code \<Longrightarrow>
   checkLock sys this f u = Inl (TypeError ''utils.errorWithCode is not a function'')"
  by (simp add: checkLock_def)

text \<open>
  C2, as amended. For a marker file that is absent or can be read, \<open>checkLock\<close> reports
  \<open>available\<close> exactly when the file is absent (\<open>stat\<close> fails with \<open>ENOENT\<close> or
  \<open>EACCES\<close>), or the pid recorded in it is this process's pid and the path is not in the
  object's set \<open>files\<close>, or the recorded pid is another one and sending signal 0 to it
  throws, whatever the error (a pid that does not parse included). What happens when the
  file cannot be read is left out.
\<close>

theorem C2_checkLock:
  "(pathExists sys f = Inr True \<longrightarrow> (\<exists>content. fs_readFile sys f = Inr content)) \<longrightarrow>
   (checkLock sys this f u = Inr available) =
     (pathExists sys f = Inr False
      \<or> (pathExists sys f = Inr True \<and>
          (\<exists>content. fs_readFile sys f = Inr content \<and>
             (if readout content = Some (int (process_pid sys)) then f \<notin> files this
              else kill_signal sys (readout content) 0 \<noteq> None))))"
  by (auto simp add: checkLock_def isAlive_def split: sum.splits bool.splits option.splits)

theorem C2_checkLock_witness:
  "checkLock (sys_file ''/d/v.lock'' ''999 u9'') (LockFile_new None None) ''/d/v.lock'' None =
     Inr available
   \<and> kill_signal (sys_file ''/d/v.lock'' ''999 u9'') (Some 999) 0 = Some ''ESRCH''
   \<and> checkLock sys_empty (LockFile_new None None) ''/d/v.lock'' None = Inr available"
  using
    C2_checkLock [of "sys_file ''/d/v.lock'' ''999 u9''" "''/d/v.lock''" "LockFile_new None None"
      None]
    C2_checkLock [of sys_empty "''/d/v.lock''" "LockFile_new None None" None]
  by (simp add: pathExists_sys_file pathExists_sys_empty readout_999 kill_signal_def
      sys_file_sel sys_empty_sel LockFile_new_def)

text \<open>
  C2 as the specification states it fails: the marker file is present and readable and
  records the pid of this live process, to which signal 0 can be sent, yet the status is
  \<open>available\<close>, because the path is not in the object's set \<open>files\<close>.
\<close>

theorem C2_own_pid_counterexample:
  "checkLock (sys_file ''/d/v.lock'' ''42 u1'') (LockFile_new None None) ''/d/v.lock'' None =
     Inr available
   \<and> pathExists (sys_file ''/d/v.lock'' ''42 u1'') ''/d/v.lock'' = Inr True
   \<and> fs_readFile (sys_file ''/d/v.lock'' ''42 u1'') ''/d/v.lock'' = Inr ''42 u1''
   \<and> readout ''42 u1'' = Some 42
   \<and> kill_signal (sys_file ''/d/v.lock'' ''42 u1'') (Some 42) 0 = None
   \<and> isAlive (sys_file ''/d/v.lock'' ''42 u1'') (Some 42)"
  by (simp add: checkLock_def pathExists_sys_file readout_42 isAlive_def kill_signal_def
      LockFile_new_def sys_file_sel)

text \<open>
  The second \<open>unlock\<close> of a handle: a successful \<open>unlock\<close> of a handle with a path
  clears \<open>file\<close> and \<open>uuid\<close>, removes the path from the handle's own set, emits
  \<open>unlock\<close> on the handle's own emitter, and every later \<open>unlock\<close> returns at once.
\<close>

lemma unlock_twice:
  assumes "this_file this = Some f" and "f \<noteq> []" and "unlock sys this = Inr (this', effs)"
  shows "this_file this' = None \<and> this_uuid this' = None \<and> f \<notin> files this'
         \<and> events this' = events this @ [(UnlockEvent, f)]
         \<and> unlock sys' this' = Inr (this', [])"
  using assms
  by (auto simp add: unlock_def unlockCleanup_def split: sum.splits LockFileStatus.splits)

text \<open>
  What \<open>lock\<close> and \<open>unlock\<close> do to the sets, for every snapshot: a \<open>lock\<close> that
  writes the marker records the path in the set of the object it is called on and returns
  a new handle; the \<open>unlock\<close> of a new handle never unlinks and never reaches another
  object's set.
\<close>

lemma lock_records_path:
  "lock sys u f L = Inr (Some (L1, h, e1 # e2 # es)) \<Longrightarrow>
   path_resolve sys [trim f] \<in> files L1
   \<and> h = LockFile_new (Some (path_resolve sys [trim f])) (Some u)"
  by (auto simp add: lock_def createLock_def Let_def
      split: sum.splits LockFileStatus.splits if_splits)

lemma unlock_of_new_handle:
  "unlock sys (LockFile_new (Some f) (Some u)) = Inr (h, effs) \<Longrightarrow> effs = [] \<and> files h = {}"
  by (auto simp add: unlock_def unlockCleanup_def checkLock_def LockFile_new_def
      split: sum.splits bool.splits if_splits)

text \<open>
  C3, the code at \<open>h = await L.lock(path); await h.unlock()\<close> for a fresh object \<open>L\<close>.
  \<open>lock\<close> records the path in the set of \<open>L\<close> and returns a new handle with an empty
  set of its own. \<open>unlock\<close> on the handle finds the path missing from the handle's set,
  takes the status for \<open>available\<close>, unlinks nothing and clears the handle; the set of
  \<open>L\<close> is not reached and keeps the path, so that a further \<open>lock\<close> of the path on
  \<open>L\<close> sees \<open>lockedSelf\<close> and waits.
\<close>

theorem C3_lock_then_unlock:
  "lock sys_empty ''u1'' ''/d/v.lock'' (LockFile_new None None) =
     Inr (Some (\<lparr>this_file = None, this_uuid = None, files = {''/d/v.lock''},
                 events = [(LockEvent, ''/d/v.lock'')]\<rparr>,
                LockFile_new (Some ''/d/v.lock'') (Some ''u1''),
                [Mkdir ''/d'', WriteFile ''/d/v.lock'' ''42 u1'']))
   \<and> unlock (sys_file ''/d/v.lock'' ''42 u1'') (LockFile_new (Some ''/d/v.lock'') (Some ''u1'')) =
     Inr (\<lparr>this_file = None, this_uuid = None, files = {},
           events = [(UnlockEvent, ''/d/v.lock'')]\<rparr>, [])
   \<and> checkLock (sys_file ''/d/v.lock'' ''42 u1'')
        \<lparr>this_file = None, this_uuid = None, files = {''/d/v.lock''},
         events = [(LockEvent, ''/d/v.lock'')]\<rparr> ''/d/v.lock'' None = Inr lockedSelf
   \<and> lock (sys_file ''/d/v.lock'' ''42 u1'') ''u2'' ''/d/v.lock''
        \<lparr>this_file = None, this_uuid = None, files = {''/d/v.lock''},
         events = [(LockEvent, ''/d/v.lock'')]\<rparr> = Inr None"
proof -
  have s: "showNat 42 = ''42''"
    by (simp add: showNat.simps digitChar_def)
  have t: "trim ''/d/v.lock'' = ''/d/v.lock''"
    by (simp add: trim_def isWhiteSpace_def)
  have d: "path_dirname sys_empty ''/d/v.lock'' = ''/d''"
    by (simp add: sys_empty_def)
  show ?thesis
    by (simp add: lock_def createLock_def unlock_def unlockCleanup_def checkLock_def
        pathExists_sys_file pathExists_sys_empty LockFile_new_def readout_42 fileData_42
        sys_file_sel sys_empty_sel s t d Let_def)
qed

section \<open>Claims about MinioBinaryDownload\<close>

lemma mode_775_value: "mode_775 = 509"
  by (simp add: mode_775_def)

lemma extractZipEntries_effects:
  "e \<in> set (snd (extractZipEntries p accept zs)) \<Longrightarrow>
   \<exists>n c. accept n \<and> (n, Inr c) \<in> set zs \<and> e = CreateWriteStream p (Some mode_775) c"
proof (induction zs)
  case Nil
  then show ?case by simp
next
  case (Cons z zs)
  obtain n r where z: "z = (n, r)" by (cases z)
  show ?case
  proof (cases "accept n")
    case False
    with Cons z show ?thesis by auto
  next
    case True
    show ?thesis
    proof (cases r)
      case (Inl err)
      with Cons.prems z True show ?thesis by simp
    next
      case (Inr c)
      with Cons z True show ?thesis
        by (auto split: prod.splits)
    qed
  qed
qed

lemma extractZipEntries_all_open:
  "extractZipEntries p accept (map (\<lambda>(n, c). (n, Inr c)) es) =
     (None, map (\<lambda>(n, c). CreateWriteStream p (Some mode_775) c) (filter (\<lambda>(n, c). accept n) es))"
  by (induction es) (auto split: prod.splits)

text \<open>
  C4, as amended. \<open>extract\<close> first copies the archive file itself to the binary's final
  path. Then it dispatches on the archive path: for \<open>.tar.gz\<close> or \<open>.tgz\<close> (tar over
  gzip) and otherwise for \<open>.zip\<close> it pipes every entry whose name matches
  \<open>bin/(minio|minio.exe)$\<close>, letter case ignored, into a write stream on the final path
  with mode \<open>0o775\<close>; for any other archive path nothing more happens. So the final
  path receives the copy of the archive and matching entries, and nothing else.
\<close>

theorem C4_extract:
  "fs_fail sys (CopyFile a p) = None \<longrightarrow>
     (isTarGz a \<and> tar_entries ar a = (es, None) \<longrightarrow>
        extract_archive sys ar p a =
          (Inr p, CopyFile a p #
                  map (\<lambda>(n, c). CreateWriteStream p (Some mode_775) c)
                    (filter (\<lambda>(n, c). filter_entry n) es)))
     \<and> (\<not> isTarGz a \<and> isZip a \<and> zip_entries ar a = Inr (map (\<lambda>(n, c). (n, Inr c)) es) \<longrightarrow>
        extract_archive sys ar p a =
          (Inr p, CopyFile a p #
                  map (\<lambda>(n, c). CreateWriteStream p (Some mode_775) c)
                    (filter (\<lambda>(n, c). filter_entry n) es)))
     \<and> (\<not> isTarGz a \<and> \<not> isZip a \<longrightarrow> extract_archive sys ar p a = (Inr p, [CopyFile a p]))
     \<and> (\<forall>e \<in> set (snd (extract_archive sys ar p a)).
          e = CopyFile a p
          \<or> (\<exists>n c. filter_entry n \<and> e = CreateWriteStream p (Some mode_775) c
                \<and> ((n, c) \<in> set (fst (tar_entries ar a))
                    \<or> (\<exists>zs. zip_entries ar a = Inr zs \<and> (n, Inr c) \<in> set zs))))
     \<and> mode_775 = 509"
proof (intro impI conjI)
  assume ok: "fs_fail sys (CopyFile a p) = None"
  show "extract_archive sys ar p a =
          (Inr p, CopyFile a p #
                  map (\<lambda>(n, c). CreateWriteStream p (Some mode_775) c)
                    (filter (\<lambda>(n, c). filter_entry n) es))"
    if "isTarGz a \<and> tar_entries ar a = (es, None)"
    using that ok by (simp add: extract_archive_def extractTarGz_def)
  show "extract_archive sys ar p a =
          (Inr p, CopyFile a p #
                  map (\<lambda>(n, c). CreateWriteStream p (Some mode_775) c)
                    (filter (\<lambda>(n, c). filter_entry n) es))"
    if "\<not> isTarGz a \<and> isZip a \<and> zip_entries ar a = Inr (map (\<lambda>(n, c). (n, Inr c)) es)"
    using that ok by (simp add: extract_archive_def extractZip_def extractZipEntries_all_open)
  show "extract_archive sys ar p a = (Inr p, [CopyFile a p])" if "\<not> isTarGz a \<and> \<not> isZip a"
    using that ok by (simp add: extract_archive_def)
  show "\<forall>e \<in> set (snd (extract_archive sys ar p a)).
          e = CopyFile a p
          \<or> (\<exists>n c. filter_entry n \<and> e = CreateWriteStream p (Some mode_775) c
                \<and> ((n, c) \<in> set (fst (tar_entries ar a))
                    \<or> (\<exists>zs. zip_entries ar a = Inr zs \<and> (n, Inr c) \<in> set zs)))"
  proof
    fix e
    assume e: "e \<in> set (snd (extract_archive sys ar p a))"
    show "e = CopyFile a p
          \<or> (\<exists>n c. filter_entry n \<and> e = CreateWriteStream p (Some mode_775) c
                \<and> ((n, c) \<in> set (fst (tar_entries ar a))
                    \<or> (\<exists>zs. zip_entries ar a = Inr zs \<and> (n, Inr c) \<in> set zs)))"
    proof (cases "isTarGz a")
      case True
      with e ok show ?thesis
        by (cases "tar_entries ar a")
          (auto simp add: extract_archive_def extractTarGz_def split: option.splits)
    next
      case False
      show ?thesis
      proof (cases "isZip a")
        case nz: False
        with e ok False show ?thesis
          by (simp add: extract_archive_def)
      next
        case z: True
        show ?thesis
        proof (cases "zip_entries ar a")
          case (Inl err)
          with e ok False z show ?thesis
            by (simp add: extract_archive_def extractZip_def)
        next
          case (Inr zs)
          from e ok False z Inr
          have "e = CopyFile a p \<or> e \<in> set (snd (extractZipEntries p filter_entry zs))"
            by (cases "extractZipEntries p filter_entry zs")
              (auto simp add: extract_archive_def extractZip_def split: option.splits)
          with Inr show ?thesis
            by (auto dest: extractZipEntries_effects)
        qed
      qed
    qed
  qed
  show "mode_775 = 509"
    by (rule mode_775_value)
qed

lemma isTarGz_example: "isTarGz ''/d/minio.tgz''" and isZip_example: "\<not> isZip ''/d/minio.tgz''"
  and plain_example: "\<not> isTarGz ''/d/minio'' \<and> \<not> isZip ''/d/minio''"
  by (simp_all add: isTarGz_def isZip_def dot_def)

lemma filter_entry_example:
  "filter_entry ''minio/bin/minio''" "\<not> filter_entry ''minio/README.md''"
  by (simp_all add: filter_entry_def endsWith_def toLowerCase_def toLowerChar_def)

theorem C4_extract_witness:
  "extract_archive sys_empty
     (archives_example [(''minio/README.md'', ''hello''), (''minio/bin/minio'', ''ELF'')])
     ''/d/minio-bin'' ''/d/minio.tgz'' =
     (Inr ''/d/minio-bin'',
      [CopyFile ''/d/minio.tgz'' ''/d/minio-bin'',
       CreateWriteStream ''/d/minio-bin'' (Some 509) ''ELF''])
   \<and> extract_archive sys_empty (archives_example []) ''/d/minio-bin'' ''/d/minio'' =
     (Inr ''/d/minio-bin'', [CopyFile ''/d/minio'' ''/d/minio-bin''])"
proof -
  have ok: "fs_fail sys_empty (CopyFile a p) = None" for a p
    by (simp add: sys_empty_sel)
  have tgz: "isTarGz ''/d/minio.tgz'' \<and>
      tar_entries (archives_example [(''minio/README.md'', ''hello''), (''minio/bin/minio'', ''ELF'')])
        ''/d/minio.tgz'' = ([(''minio/README.md'', ''hello''), (''minio/bin/minio'', ''ELF'')], None)"
    by (simp add: isTarGz_example archives_example_def)
  have a: "extract_archive sys_empty
     (archives_example [(''minio/README.md'', ''hello''), (''minio/bin/minio'', ''ELF'')])
     ''/d/minio-bin'' ''/d/minio.tgz'' =
     (Inr ''/d/minio-bin'',
      [CopyFile ''/d/minio.tgz'' ''/d/minio-bin'',
       CreateWriteStream ''/d/minio-bin'' (Some 509) ''ELF''])"
    using C4_extract [of sys_empty "''/d/minio.tgz''" "''/d/minio-bin''"
        "archives_example [(''minio/README.md'', ''hello''), (''minio/bin/minio'', ''ELF'')]"
        "[(''minio/README.md'', ''hello''), (''minio/bin/minio'', ''ELF'')]",
        THEN mp, OF ok, THEN conjunct1, THEN mp, OF tgz]
    by (simp add: filter_entry_example mode_775_value)
  have b: "extract_archive sys_empty (archives_example []) ''/d/minio-bin'' ''/d/minio'' =
     (Inr ''/d/minio-bin'', [CopyFile ''/d/minio'' ''/d/minio-bin''])"
    using C4_extract [of sys_empty "''/d/minio''" "''/d/minio-bin''" "archives_example []" "[]",
        THEN mp, OF ok, THEN conjunct2, THEN conjunct2, THEN conjunct1, THEN mp, OF plain_example]
    by simp
  from a b show ?thesis by simp
qed

text \<open>
  C4 as the specification states it fails: the final path receives the whole archive
  file, which is no entry of the archive, and keeps it when no entry matches.
\<close>

theorem C4_copy_counterexample:
  "extract_archive sys_empty (archives_example [(''minio/README.md'', ''hello'')])
     ''/d/minio-bin'' ''/d/minio.tgz'' =
     (Inr ''/d/minio-bin'', [CopyFile ''/d/minio.tgz'' ''/d/minio-bin''])
   \<and> \<not> filter_entry ''minio/README.md''"
  by (simp add: extract_archive_def extractTarGz_def sys_empty_sel archives_example_def
      isTarGz_example filter_entry_example)

lemma net_example_sel:
  "newURL (net_example out) ''https://dl.min.io/minio.md5'' =
     Some \<lparr>href = ''https://dl.min.io/minio.md5'', pathname = ''/minio.md5'', url_port = []\<rparr>"
  "newURL (net_example out) ''https://dl.min.io/minio'' =
     Some \<lparr>href = ''https://dl.min.io/minio'', pathname = ''/minio'', url_port = []\<rparr>"
  "newURL (net_example out) ''http://dl.min.io/minio'' =
     Some \<lparr>href = ''http://dl.min.io/minio'', pathname = ''/minio'', url_port = []\<rparr>"
  "URL_set_port (net_example out)
     \<lparr>href = ''https://dl.min.io/minio.md5'', pathname = ''/minio.md5'', url_port = []\<rparr> ''443'' =
     \<lparr>href = ''https://dl.min.io/minio.md5'', pathname = ''/minio.md5'', url_port = []\<rparr>"
  "URL_set_port (net_example out)
     \<lparr>href = ''https://dl.min.io/minio'', pathname = ''/minio'', url_port = []\<rparr> ''443'' =
     \<lparr>href = ''https://dl.min.io/minio'', pathname = ''/minio'', url_port = []\<rparr>"
  "URL_set_port (net_example out)
     \<lparr>href = ''http://dl.min.io/minio'', pathname = ''/minio'', url_port = []\<rparr> ''443'' =
     \<lparr>href = ''http://dl.min.io:443/minio'', pathname = ''/minio'', url_port = ''443''\<rparr>"
  "https_get (net_example out) u n = out"
  "resolveConfig (net_example out) ''MAX_REDIRECTS'' = Some ''2''"
  by (simp_all add: net_example_def)

lemma maxRedirects_example: "maxRedirects (net_example out) = 2"
  by (simp add: maxRedirects_def net_example_def orElse_def parseInt_def isWhiteSpace_def
      toLowerCase_def toLowerChar_def isDigit_def digitsToNat_def Let_def)

lemma parseInt_2: "parseInt ''2'' = Some 2" and parseInt10_32: "parseInt10 ''32'' = Some 32"
  by (simp_all add: parseInt_def parseInt10_def isWhiteSpace_def toLowerCase_def toLowerChar_def
      isDigit_def digitsToNat_def Let_def)

lemma filename_examples:
  "filename_of \<lparr>href = h, pathname = ''/minio.md5'', url_port = q\<rparr> = ''minio.md5''"
  "filename_of \<lparr>href = h, pathname = ''/minio'', url_port = q\<rparr> = ''minio''"
  by (simp_all add: filename_of_def)

text \<open>
  The two rejections of \<open>httpDownload\<close> on a response with status 200 that hold as the
  specification states them: a missing \<open>content-length\<close> header, and fewer bytes than
  the header declares when the option \<open>path\<close> does not end in \<open>.md5\<close>.
\<close>

lemma httpDownload_rejections:
  \<open>(https_get net url (maxRedirects net) = Response 200 None chunks \<longrightarrow>
      fst (httpDownload net url opts loc tmp this) =
        Inl (DownloadError (href url) ''Response header "content-length" is empty!''))
   \<and> (https_get net url (maxRedirects net) = Response 200 (Some header) chunks
       \<and> parseInt10 header = Some declared \<and> int (sum_list (map length chunks)) < declared
       \<and> (\<forall>p. path opts = Some p \<longrightarrow> \<not> endsWith p ''.md5'') \<longrightarrow>
      fst (httpDownload net url opts loc tmp this) =
        Inl (DownloadError (href url)
               (''Too small ('' @ showNat (sum_list (map length chunks)) @
                '' bytes) minio binary downloaded.'')))\<close>
  by (auto simp add: httpDownload_def Let_def split: option.splits)

text \<open>
  C5, the code at a short read of a URL that ends in \<open>.md5\<close>. \<open>download\<close> passes
  request options without \<open>path\<close>, so the test \<open>httpOptions.path?.endsWith(".md5")\<close> of
  \<open>httpDownload\<close> never holds: with status 200, \<open>content-length\<close> 32 and 3 bytes
  received, the download of \<open>minio.md5\<close> is rejected as too small.
\<close>

theorem C5_md5_short_read:
  "endsWith ''https://dl.min.io/minio.md5'' ''.md5''
   \<and> download sys_empty (net_example (Response 200 (Some ''32'') [''abc'']))
       ''https://dl.min.io/minio.md5'' downloader_example =
     (Inl (DownloadError ''https://dl.min.io/minio.md5''
             ''Too small (3 bytes) minio binary downloaded.''),
      \<lparr>downloadDir = ''/d'', dlProgress_current = 3, dlProgress_length = Some 32,
        downloadingUrl = Some ''https://dl.min.io/minio.md5''\<rparr>,
      [HttpsGet ''https://dl.min.io/minio.md5'' 2,
       CreateWriteStream ''/d/minio.md5.downloading'' None ''abc''])"
proof -
  have s: "showNat (Suc (Suc (Suc 0))) = ''3''"
    by (simp add: showNat.simps digitChar_def)
  show ?thesis
    by (simp add: download_def httpDownload_def assignDownloadingURL_def net_example_sel
        filename_examples sys_empty_sel pathExists_sys_empty downloader_example_def
        maxRedirects_example parseInt10_32 endsWith_def s Let_def)
qed




lemma parseInt10_3: "parseInt10 ''3'' = Some 3"
  by (simp add: parseInt10_def isWhiteSpace_def isDigit_def digitsToNat_def Let_def)


text \<open>
  The same download from an \<open>http\<close> URL: 443 is not the default port of the scheme, so
  the assignment of the port shows in the URL that is requested.
\<close>

lemma download_http_example:
  "download sys_empty (net_example (Response 200 (Some ''3'') [''abc'']))
       ''http://dl.min.io/minio'' downloader_example =
     (Inr ''/d/minio'',
      \<lparr>downloadDir = ''/d'', dlProgress_current = 3, dlProgress_length = Some 3,
        downloadingUrl = Some ''http://dl.min.io:443/minio''\<rparr>,
      [HttpsGet ''http://dl.min.io:443/minio'' 2,
       CreateWriteStream ''/d/minio.downloading'' None ''abc'',
       Rename ''/d/minio.downloading'' ''/d/minio''])"
  by (simp add: download_def httpDownload_def assignDownloadingURL_def net_example_sel
      filename_examples sys_empty_sel pathExists_sys_empty downloader_example_def
      maxRedirects_example parseInt10_3 Let_def)

end
